theory Spec2Isabelle
  imports Complex_Main
begin

section \<open>CoordinateActuator (src/OpenSim/Actuators/CoordinateActuator.cpp)\<close>

text \<open>
  The C++ type \<open>double\<close> is modelled by \<^typ>\<open>real\<close>: the development is about which
  quantities are combined and on which path, in exact arithmetic, and says nothing about
  rounding, infinities or NaN.

  A method that the source declares \<open>void\<close> and that changes the object or the state is
  modelled as a function returning either the exception that leaves the method
  (\<open>Inl\<close>) or the updated values (\<open>Inr\<close>).
\<close>

datatype exception = Exception string
  \<comment> \<open>\<open>OpenSim::Exception\<close>, carrying its message\<close>

record Coordinate =
  coord_name :: string

record Model =
  coordinateSet :: "Coordinate list"

text \<open>
  \<open>_model\<close> and \<open>_coord\<close> are pointers in the source and may be \<open>NULL\<close>; \<open>_coord\<close>
  points into the coordinate set of the model and is modelled as the position of the
  coordinate in that set. The two entries of the property table, \<open>"coordinate"\<close> and
  \<open>"optimal_force"\<close>, are added by \<open>setupProperties\<close>, which every constructor runs
  through \<open>setNull\<close>; they are fields of the record.
\<close>

record CoordinateActuator =
  name :: string
  coordinate :: string
  optimal_force :: real
  m_model :: "Model option"
  m_coord :: "nat option"

text \<open>
  The part of \<open>SimTK::State\<close> that the actuator reads and writes: its control value,
  its cached force, and the override flag and value.
\<close>

record State =
  control :: real
  force :: real
  force_overridden :: bool
  override_force :: real

text \<open>
  The accessors of the base class \<open>Actuator\<close> are not part of the source files at hand.
  The spec lists \<open>control\<close>, \<open>force\<close> and \<open>overridden\<close> as state-dependent attributes
  of an actuator; the accessors read and write them.
\<close>

text \<open>Modelled from the spec: \<open>Actuator::getControl\<close> is missing; it reads the control
  of the state.\<close>

definition getControl :: "State \<Rightarrow> real" where
  "getControl s = control s"

text \<open>Modelled from the spec: \<open>Actuator::getForce\<close> is missing; it reads the force cached
  in the state.\<close>

definition getForce :: "State \<Rightarrow> real" where
  "getForce s = force s"

text \<open>Modelled from the spec: \<open>Actuator::setForce\<close> is missing; it caches the force in the
  state.\<close>

definition setForce :: "State \<Rightarrow> real \<Rightarrow> State" where
  "setForce s f = s\<lparr>force := f\<rparr>"

text \<open>Modelled from the spec: \<open>Actuator::isForceOverriden\<close> is missing; it reads the
  override flag of the state.\<close>

definition isForceOverriden :: "State \<Rightarrow> bool" where
  "isForceOverriden s = force_overridden s"

text \<open>Modelled from the spec: \<open>Actuator::computeOverrideForce\<close> is missing; it returns
  the override value of the state.\<close>

definition computeOverrideForce :: "State \<Rightarrow> real" where
  "computeOverrideForce s = override_force s"

text \<open>Modelled from the spec: \<open>Actuator::setup\<close> is missing; it attaches the actuator to
  the model, that is, it sets \<open>_model\<close>.\<close>

definition Actuator_setup :: "Model \<Rightarrow> CoordinateActuator \<Rightarrow> CoordinateActuator" where
  "Actuator_setup aModel a = a\<lparr>m_model := Some aModel\<rparr>"

text \<open>Modelled from the spec: the container class of \<open>CoordinateSet\<close> is missing. The spec
  says that the textual reference is looked up in the model; the lookup by name returns
  the position of the first coordinate with the name, which \<open>get\<close> returns a reference
  to.\<close>

fun getIndex :: "Coordinate list \<Rightarrow> string \<Rightarrow> nat option" where
  "getIndex [] n = None"
| "getIndex (c # cs) n =
     (if coord_name c = n then Some 0 else map_option Suc (getIndex cs n))"

text \<open>Modelled from the spec: \<open>contains\<close> of the container class of \<open>CoordinateSet\<close> is
  missing; it says whether the lookup by name finds a coordinate.\<close>

definition contains :: "Coordinate list \<Rightarrow> string \<Rightarrow> bool" where
  "contains cs n = (getIndex cs n \<noteq> None)"

text \<open>
  The constructor \<open>CoordinateActuator(aCoordinateName)\<close>: \<open>_coord\<close> is \<open>NULL\<close>, the
  property \<open>"optimal_force"\<close> has its default 1.0, and \<open>_model\<close> is still \<open>NULL\<close>, so
  the lookup in the constructor's body is skipped.
\<close>

definition newCoordinateActuator :: "string \<Rightarrow> CoordinateActuator" where
  "newCoordinateActuator aCoordinateName =
     \<lparr>name = [], coordinate = aCoordinateName, optimal_force = 1,
      m_model = None, m_coord = None\<rparr>"

definition setOptimalForce :: "CoordinateActuator \<Rightarrow> real \<Rightarrow> exception + CoordinateActuator" where
  "setOptimalForce a aOptimalForce = Inr (a\<lparr>optimal_force := aOptimalForce\<rparr>)"

definition getOptimalForce :: "CoordinateActuator \<Rightarrow> real" where
  "getOptimalForce a = optimal_force a"

text \<open>
  \<open>getStress\<close> returns \<open>fabs(getForce(s) / optimal_force)\<close>. A quotient of doubles by
  0.0 is an infinity or NaN and not a real number, while division by 0 in HOL yields 0;
  the result is \<open>None\<close> for the optimal force 0, so that no value is claimed for it.
\<close>

definition getStress :: "CoordinateActuator \<Rightarrow> State \<Rightarrow> real option" where
  "getStress a s =
     (if optimal_force a = 0 then None
      else Some \<bar>getForce s / optimal_force a\<bar>)"

definition computeActuation :: "CoordinateActuator \<Rightarrow> State \<Rightarrow> real" where
  "computeActuation a s =
     (if m_model a = None then 0.0
      else getControl s * optimal_force a)"

definition isCoordinateValid :: "CoordinateActuator \<Rightarrow> bool" where
  "isCoordinateValid a =
     (if m_model a = None \<or> m_coord a = None then False else True)"

text \<open>
  \<open>computeForce\<close>. The helper \<open>applyGeneralizedForce\<close> of the base class \<open>Force\<close> is not
  part of the source files at hand and is a parameter: it receives the state, the
  coordinate pointed to, the force and the mobility forces, and returns the mobility
  forces. The result holds the state (with the cached force), the body forces, the
  mobility forces and the lines written to standard output.
\<close>

definition computeForce ::
  "(State \<Rightarrow> nat \<Rightarrow> real \<Rightarrow> 'm \<Rightarrow> 'm) \<Rightarrow> CoordinateActuator \<Rightarrow> State \<Rightarrow> 'b \<Rightarrow> 'm
     \<Rightarrow> exception + (State \<times> 'b \<times> 'm \<times> string list)" where
  "computeForce applyGeneralizedForce a s bodyForces mobilityForces =
     (if m_model a = None then Inr (s, bodyForces, mobilityForces, [])
      else
        let force = (if isForceOverriden s then computeOverrideForce s
                     else computeActuation a s);
            s' = setForce s force
        in if isCoordinateValid a
           then Inr (s', bodyForces,
                     applyGeneralizedForce s' (the (m_coord a)) (getForce s') mobilityForces, [])
           else Inr (s', bodyForces, mobilityForces,
                     [''CoordinateActuator::computeForce  Invalid coordinate '']))"

text \<open>
  \<open>CoordinateActuator::setup\<close> (the word \<open>setup\<close> alone is reserved in Isabelle): the
  base class stores the model, then the coordinate name is looked up in the model's
  coordinate set. The changes made to the object before a \<open>throw\<close> are not part of the
  exceptional result.
\<close>

definition CoordinateActuator_setup :: "Model \<Rightarrow> CoordinateActuator \<Rightarrow> exception + CoordinateActuator" where
  "CoordinateActuator_setup aModel a =
     (let coordName = coordinate a;
          a' = Actuator_setup aModel a
      in if \<not> contains (coordinateSet (the (m_model a'))) coordName
         then Inl (Exception (''CoordinateActuator: Invalid coordinate ('' @ coordName
                              @ '') specified in Actuator '' @ name a'))
         else Inr (a'\<lparr>m_coord := getIndex (coordinateSet (the (m_model a'))) coordName\<rparr>))"

section \<open>PrescribedController (src/OpenSim/Simulation/Control/PrescribedController.h)\<close>

text \<open>
  Only the header of \<open>PrescribedController\<close> is among the source files. It declares the
  property \<open>ControlFunctions\<close>, one function per control, and the two methods below, whose
  bodies are missing. An \<open>OpenSim::Function\<close> of time is a function from \<^typ>\<open>real\<close> to
  \<^typ>\<open>real\<close>; the controlled actuators are listed by name in attachment order.
\<close>

record PrescribedController =
  actuators :: "string list"
  ControlFunctions :: "nat \<rightharpoonup> (real \<Rightarrow> real)"

text \<open>Modelled from the spec: the body of \<open>prescribeControlForActuator(index, function)\<close>
  is missing. The spec says that the function is assigned to the actuator with that index
  in the controller's set and replaces the function assigned before.\<close>

definition prescribeControlForActuator ::
  "nat \<Rightarrow> (real \<Rightarrow> real) \<Rightarrow> PrescribedController \<Rightarrow> PrescribedController" where
  "prescribeControlForActuator index prescribedFunction c =
     c\<lparr>ControlFunctions := (ControlFunctions c)(index \<mapsto> prescribedFunction)\<rparr>"

text \<open>Modelled from the spec: the body of \<open>PrescribedController::computeControls\<close> is
  missing. The spec says that it evaluates each actuator's function at the current time,
  in attachment order, and that an actuator without a function yields the control
  value 0.\<close>

definition PrescribedController_computeControls ::
  "PrescribedController \<Rightarrow> real \<Rightarrow> real list" where
  "PrescribedController_computeControls c time =
     map (\<lambda>i. case ControlFunctions c i of None \<Rightarrow> 0 | Some f \<Rightarrow> f time)
         [0..<length (actuators c)]"

section \<open>SynergyController (used in exampleMocoInverse.cpp)\<close>

text \<open>
  The class \<open>SynergyController\<close> is only used by the example, through \<open>addActuator\<close> and
  \<open>addSynergyVector\<close>; its code is missing. The spec says that the controller holds an
  ordered list of synergy vectors, one weight per controlled actuator each, and that the
  excitation of each channel is supplied from outside at each evaluation.
\<close>

record SynergyController =
  controlled :: "string list"
  synergyVectors :: "real list list"

text \<open>Modelled from the spec: \<open>SynergyController::computeControls\<close> is missing. The spec
  says that the control of actuator \<open>j\<close> is the sum over the channels \<open>k\<close> of
  \<open>excitation_k * synergyVector_k[j]\<close>.\<close>

definition SynergyController_computeControls ::
  "SynergyController \<Rightarrow> real list \<Rightarrow> real list" where
  "SynergyController_computeControls c excitations =
     map (\<lambda>j. sum_list (map2 (\<lambda>e v. e * v ! j) excitations (synergyVectors c)))
         [0..<length (controlled c)]"

section \<open>factorizeMatrixNonNegative (called in exampleMocoInverse.cpp)\<close>

text \<open>
  The example calls \<open>factorizeMatrixNonNegative(V, K, N, eps, W, H)\<close>; the code of the
  routine is missing. The spec describes a multiplicative-update iteration: each iteration rescales \<open>H\<close> by
  the elementwise ratio of \<open>W\<^sup>TV\<close> and \<open>W\<^sup>TWH\<close>, then \<open>W\<close> by the elementwise ratio
  of \<open>VH\<^sup>T\<close> and \<open>WHH\<^sup>T\<close>, with a small positive floor added to the denominators; the
  initial factors are seeded with non-negative values; the iteration stops when the
  relative decrease of the reconstruction error falls below the tolerance or after \<open>N\<close>
  iterations, and returns the factors reached.

  A dense matrix is a function from row and column index to the entry, with its
  dimensions given separately: \<open>V\<close> is \<open>T \<times> M\<close>, \<open>W\<close> is \<open>T \<times> K\<close> and \<open>H\<close> is
  \<open>K \<times> M\<close>. The floor \<open>\<delta>\<close> and the seeds \<open>W0\<close>, \<open>H0\<close> are parameters.
\<close>

type_synonym matrix = "nat \<Rightarrow> nat \<Rightarrow> real"

text \<open>Modelled from the spec: the matrix product of \<open>SimTK::Matrix\<close> is missing; \<open>n\<close> is
  the common dimension.\<close>

definition mat_mult :: "nat \<Rightarrow> matrix \<Rightarrow> matrix \<Rightarrow> matrix" where
  "mat_mult n A B = (\<lambda>i j. \<Sum>k<n. A i k * B k j)"

text \<open>Modelled from the spec: the transpose of \<open>SimTK::Matrix\<close> is missing.\<close>

definition mat_transpose :: "matrix \<Rightarrow> matrix" where
  "mat_transpose A = (\<lambda>i j. A j i)"

text \<open>Modelled from the spec: the update of \<open>H\<close> inside \<open>factorizeMatrixNonNegative\<close> is
  missing. The spec says that \<open>H\<close> is rescaled by the elementwise ratio of \<open>W\<^sup>TV\<close> and
  \<open>W\<^sup>TWH\<close>, with the floor added to the denominator.\<close>

definition updateH :: "real \<Rightarrow> nat \<Rightarrow> nat \<Rightarrow> matrix \<Rightarrow> matrix \<Rightarrow> matrix \<Rightarrow> matrix" where
  "updateH \<delta> T K V W H =
     (\<lambda>a j. H a j * (mat_mult T (mat_transpose W) V a j
                     / (mat_mult K (mat_mult T (mat_transpose W) W) H a j + \<delta>)))"

text \<open>Modelled from the spec: the update of \<open>W\<close> inside \<open>factorizeMatrixNonNegative\<close> is
  missing. The spec says that \<open>W\<close> is rescaled by the elementwise ratio of \<open>VH\<^sup>T\<close> and
  \<open>WHH\<^sup>T\<close>, with the floor added to the denominator.\<close>

definition updateW :: "real \<Rightarrow> nat \<Rightarrow> nat \<Rightarrow> matrix \<Rightarrow> matrix \<Rightarrow> matrix \<Rightarrow> matrix" where
  "updateW \<delta> M K V W H =
     (\<lambda>i a. W i a * (mat_mult M V (mat_transpose H) i a
                     / (mat_mult K W (mat_mult M H (mat_transpose H)) i a + \<delta>)))"

text \<open>Modelled from the spec: the squared reconstruction error that the iteration
  minimises, the sum of the squares of the entries of \<open>V - WH\<close>.\<close>

definition reconstructionError :: "nat \<Rightarrow> nat \<Rightarrow> nat \<Rightarrow> matrix \<Rightarrow> matrix \<Rightarrow> matrix \<Rightarrow> real" where
  "reconstructionError T M K V W H = (\<Sum>i<T. \<Sum>j<M. (V i j - mat_mult K W H i j)\<^sup>2)"

text \<open>Modelled from the spec: one iteration of the missing routine; \<open>H\<close> is rescaled
  first, then \<open>W\<close> with the new \<open>H\<close>.\<close>

definition nmf_step ::
  "real \<Rightarrow> nat \<Rightarrow> nat \<Rightarrow> nat \<Rightarrow> matrix \<Rightarrow> matrix \<times> matrix \<Rightarrow> matrix \<times> matrix" where
  "nmf_step \<delta> T M K V WH =
     (let H' = updateH \<delta> T K V (fst WH) (snd WH);
          W' = updateW \<delta> M K V (fst WH) H'
      in (W', H'))"

text \<open>Modelled from the spec: the loop of the missing routine. It stops when the
  relative decrease of the reconstruction error is below the tolerance or when the
  iteration cap is used up, and returns the factors reached. The spec does not say what
  the relative decrease is when the error before the step is 0; the quotient is then 0
  here. The properties below hold wherever the loop stops.\<close>

fun nmf_iterate ::
  "real \<Rightarrow> nat \<Rightarrow> nat \<Rightarrow> nat \<Rightarrow> matrix \<Rightarrow> real \<Rightarrow> nat \<Rightarrow> matrix \<times> matrix \<Rightarrow> matrix \<times> matrix" where
  "nmf_iterate \<delta> T M K V \<epsilon> 0 WH = WH"
| "nmf_iterate \<delta> T M K V \<epsilon> (Suc n) WH =
     (let WH' = nmf_step \<delta> T M K V WH;
          e = reconstructionError T M K V (fst WH) (snd WH);
          e' = reconstructionError T M K V (fst WH') (snd WH')
      in if (e - e') / e < \<epsilon> then WH'
         else nmf_iterate \<delta> T M K V \<epsilon> n WH')"

text \<open>Modelled from the spec: \<open>factorizeMatrixNonNegative\<close> is missing; it runs the loop
  from the seeds.\<close>

definition factorizeMatrixNonNegative ::
  "real \<Rightarrow> matrix \<Rightarrow> matrix \<Rightarrow> nat \<Rightarrow> nat \<Rightarrow> matrix \<Rightarrow> nat \<Rightarrow> nat \<Rightarrow> real \<Rightarrow> matrix \<times> matrix" where
  "factorizeMatrixNonNegative \<delta> W0 H0 T M V K N \<epsilon> = nmf_iterate \<delta> T M K V \<epsilon> N (W0, H0)"

section \<open>Properties of CoordinateActuator\<close>

text \<open>
  C1. For an actuator attached to a model, \<open>computeActuation\<close> returns the control of the
  state times the optimal force; for an actuator whose model pointer is \<open>NULL\<close> it
  returns 0.
\<close>

theorem computeActuation_spec:
  "(m_model a \<noteq> None \<longrightarrow> computeActuation a s = getControl s * optimal_force a) \<and>
   (m_model a = None \<longrightarrow> computeActuation a s = 0)"
  by (simp add: computeActuation_def)

text \<open>
  The scenario of the spec, optimal force 1.0 and control 0.5, attached and not attached.
\<close>

theorem computeActuation_spec_witness:
  "m_model ((newCoordinateActuator ''knee'')\<lparr>m_model := Some \<lparr>coordinateSet = []\<rparr>\<rparr>) \<noteq> None \<and>
   computeActuation ((newCoordinateActuator ''knee'')\<lparr>m_model := Some \<lparr>coordinateSet = []\<rparr>\<rparr>)
     \<lparr>control = 1/2, force = 0, force_overridden = False, override_force = 0\<rparr> = 1/2 \<and>
   m_model (newCoordinateActuator ''knee'') = None \<and>
   computeActuation (newCoordinateActuator ''knee'')
     \<lparr>control = 1/2, force = 0, force_overridden = False, override_force = 0\<rparr> = 0"
  using computeActuation_spec
    [of "(newCoordinateActuator ''knee'')\<lparr>m_model := Some \<lparr>coordinateSet = []\<rparr>\<rparr>"
        "\<lparr>control = 1/2, force = 0, force_overridden = False, override_force = 0\<rparr>"]
    computeActuation_spec
    [of "newCoordinateActuator ''knee''"
        "\<lparr>control = 1/2, force = 0, force_overridden = False, override_force = 0\<rparr>"]
  by (simp add: newCoordinateActuator_def getControl_def)

text \<open>
  C2 as stated fails: \<open>setOptimalForce\<close> stores the value without any check, so a call
  with the value \<open>-1\<close> returns normally with the optimal force set to \<open>-1\<close>.
\<close>

theorem setOptimalForce_nonpositive_counterexample:
  "setOptimalForce (newCoordinateActuator ''knee'') (- 1)
     = Inr ((newCoordinateActuator ''knee'')\<lparr>optimal_force := - 1\<rparr>)"
  by (simp add: setOptimalForce_def)

text \<open>
  C2, amended. For every value \<open>v\<close>, positive or not, \<open>setOptimalForce\<close> returns normally
  and the optimal force read back by \<open>getOptimalForce\<close> is \<open>v\<close>.
\<close>

theorem setOptimalForce_always_succeeds:
  "setOptimalForce a v = Inr (a\<lparr>optimal_force := v\<rparr>) \<and>
   getOptimalForce (a\<lparr>optimal_force := v\<rparr>) = v"
  by (simp add: setOptimalForce_def getOptimalForce_def)

text \<open>
  C3. For an actuator attached to a model, \<open>computeForce\<close> returns normally; the force
  cached in the state is the override value when the force is overridden and the result
  of \<open>computeActuation\<close> otherwise. When the coordinate pointer is \<open>NULL\<close> the mobility
  forces are returned as they were and one line reporting the invalid coordinate is
  written; when it points to a coordinate the cached force is handed to
  \<open>applyGeneralizedForce\<close> and nothing is written.
\<close>

theorem computeForce_spec:
  "m_model a \<noteq> None \<Longrightarrow>
     (\<exists>s'. getForce s' = (if isForceOverriden s then computeOverrideForce s
                          else computeActuation a s) \<and>
        s' = setForce s (if isForceOverriden s then computeOverrideForce s
                         else computeActuation a s) \<and>
        (m_coord a = None \<longrightarrow>
           computeForce app a s bf mf =
             Inr (s', bf, mf, [''CoordinateActuator::computeForce  Invalid coordinate ''])) \<and>
        (\<forall>c. m_coord a = Some c \<longrightarrow>
           computeForce app a s bf mf = Inr (s', bf, app s' c (getForce s') mf, [])))"
  by (auto simp: computeForce_def isCoordinateValid_def Let_def getForce_def setForce_def)

text \<open>
  An attached actuator with an unresolved coordinate and an overridden force of 3, and an
  attached actuator bound to coordinate 0 with control 0.5 and optimal force 10; here
  \<open>applyGeneralizedForce\<close> adds the force to the entry of the coordinate.
\<close>

theorem computeForce_spec_witness:
  "m_model ((newCoordinateActuator ''hip'')\<lparr>m_model := Some \<lparr>coordinateSet = []\<rparr>\<rparr>) \<noteq> None \<and>
   computeForce (\<lambda>s c f mf. mf[c := mf ! c + f])
       ((newCoordinateActuator ''hip'')\<lparr>m_model := Some \<lparr>coordinateSet = []\<rparr>\<rparr>)
       \<lparr>control = 1/2, force = 0, force_overridden = True, override_force = 3\<rparr>
       ([] :: real list) [0, 0 :: real]
     = Inr (\<lparr>control = 1/2, force = 3, force_overridden = True, override_force = 3\<rparr>,
            [], [0, 0], [''CoordinateActuator::computeForce  Invalid coordinate '']) \<and>
   computeForce (\<lambda>s c f mf. mf[c := mf ! c + f])
       ((newCoordinateActuator ''knee'')
          \<lparr>optimal_force := 10, m_model := Some \<lparr>coordinateSet = [\<lparr>coord_name = ''knee''\<rparr>]\<rparr>,
           m_coord := Some 0\<rparr>)
       \<lparr>control = 1/2, force = 0, force_overridden = False, override_force = 3\<rparr>
       ([] :: real list) [1, 0 :: real]
     = Inr (\<lparr>control = 1/2, force = 5, force_overridden = False, override_force = 3\<rparr>,
            [], [6, 0], [])"
  using computeForce_spec
    [of "(newCoordinateActuator ''hip'')\<lparr>m_model := Some \<lparr>coordinateSet = []\<rparr>\<rparr>"
        "\<lparr>control = 1/2, force = 0, force_overridden = True, override_force = 3\<rparr>"
        "\<lambda>s c f mf. mf[c := mf ! c + f]" "[] :: real list" "[0, 0 :: real]"]
    computeForce_spec
    [of "(newCoordinateActuator ''knee'')
          \<lparr>optimal_force := 10, m_model := Some \<lparr>coordinateSet = [\<lparr>coord_name = ''knee''\<rparr>]\<rparr>,
           m_coord := Some 0\<rparr>"
        "\<lparr>control = 1/2, force = 0, force_overridden = False, override_force = 3\<rparr>"
        "\<lambda>s c f mf. mf[c := mf ! c + f]" "[] :: real list" "[1, 0 :: real]"]
  by (simp add: newCoordinateActuator_def isForceOverriden_def computeOverrideForce_def
      computeActuation_def getControl_def setForce_def getForce_def)

text \<open>
  C4 as stated fails for a negative optimal force, which is nonzero and which
  \<open>setOptimalForce\<close> accepts: with force 1 and optimal force \<open>-2\<close> the stress is \<open>1/2\<close>,
  while the absolute value of the force divided by the optimal force is \<open>-1/2\<close>.
\<close>

theorem getStress_negative_counterexample:
  "getStress ((newCoordinateActuator ''knee'')\<lparr>optimal_force := - 2\<rparr>)
      \<lparr>control = 0, force = 1, force_overridden = False, override_force = 0\<rparr> = Some (1/2) \<and>
   \<bar>getForce \<lparr>control = 0, force = 1, force_overridden = False, override_force = 0\<rparr>\<bar>
     / optimal_force ((newCoordinateActuator ''knee'')\<lparr>optimal_force := - 2\<rparr>) = - (1/2)"
  by (simp add: getStress_def getForce_def newCoordinateActuator_def)

text \<open>
  C4, amended. For every actuator whose optimal force is nonzero, \<open>getStress\<close> returns the
  absolute value of the cached force divided by the absolute value of the optimal force;
  for a positive optimal force this is the absolute value of the force divided by the
  optimal force.
\<close>

theorem getStress_spec:
  "(optimal_force a \<noteq> 0 \<longrightarrow> getStress a s = Some (\<bar>getForce s\<bar> / \<bar>optimal_force a\<bar>)) \<and>
   (0 < optimal_force a \<longrightarrow> getStress a s = Some (\<bar>getForce s\<bar> / optimal_force a))"
  by (simp add: getStress_def)

text \<open>The optimal force 4 with the force \<open>-2\<close>, and the optimal force \<open>-2\<close> with the force 1.\<close>

theorem getStress_spec_witness:
  "0 < optimal_force ((newCoordinateActuator ''knee'')\<lparr>optimal_force := 4\<rparr>) \<and>
   getStress ((newCoordinateActuator ''knee'')\<lparr>optimal_force := 4\<rparr>)
      \<lparr>control = 0, force = - 2, force_overridden = False, override_force = 0\<rparr> = Some (1/2) \<and>
   optimal_force ((newCoordinateActuator ''knee'')\<lparr>optimal_force := - 2\<rparr>) \<noteq> 0 \<and>
   getStress ((newCoordinateActuator ''knee'')\<lparr>optimal_force := - 2\<rparr>)
      \<lparr>control = 0, force = 1, force_overridden = False, override_force = 0\<rparr> = Some (1/2)"
  using getStress_spec [of "(newCoordinateActuator ''knee'')\<lparr>optimal_force := 4\<rparr>"
      "\<lparr>control = 0, force = - 2, force_overridden = False, override_force = 0\<rparr>"]
    getStress_spec [of "(newCoordinateActuator ''knee'')\<lparr>optimal_force := - 2\<rparr>"
      "\<lparr>control = 0, force = 1, force_overridden = False, override_force = 0\<rparr>"]
  by (simp add: getForce_def newCoordinateActuator_def)

text \<open>The lookup by name finds a position exactly when some coordinate has the name.\<close>

lemma getIndex_None_iff: "getIndex cs n = None \<longleftrightarrow> n \<notin> coord_name ` set cs"
  by (induction cs) auto

lemma getIndex_Some:
  "getIndex cs n = Some i \<Longrightarrow> i < length cs \<and> coord_name (cs ! i) = n"
proof (induction cs arbitrary: i)
  case Nil
  then show ?case by simp
next
  case (Cons c cs)
  show ?case
  proof (cases "coord_name c = n")
    case True
    with Cons.prems show ?thesis by simp
  next
    case False
    with Cons.prems obtain j where j: "getIndex cs n = Some j" "i = Suc j"
      by auto
    with Cons.IH [of j] show ?thesis by simp
  qed
qed

text \<open>
  C5. When the actuator is attached to a model by \<open>setup\<close>, its coordinate name is looked
  up in the coordinate set of the model. If no coordinate has the name, \<open>setup\<close> throws
  the exception with the message naming the coordinate and the actuator (the unresolved
  reference error of the spec); if one has, \<open>setup\<close> returns normally, with the model
  stored and the coordinate pointer at a coordinate of the set that has the name.
\<close>

theorem setup_resolves:
  "(coordinate a \<notin> coord_name ` set (coordinateSet aModel) \<longrightarrow>
      CoordinateActuator_setup aModel a =
        Inl (Exception (''CoordinateActuator: Invalid coordinate ('' @ coordinate a
                        @ '') specified in Actuator '' @ name a))) \<and>
   (coordinate a \<in> coord_name ` set (coordinateSet aModel) \<longrightarrow>
      (\<exists>i. i < length (coordinateSet aModel) \<and>
           coord_name (coordinateSet aModel ! i) = coordinate a \<and>
           CoordinateActuator_setup aModel a =
             Inr (a\<lparr>m_model := Some aModel, m_coord := Some i\<rparr>)))"
proof (intro conjI impI)
  assume "coordinate a \<notin> coord_name ` set (coordinateSet aModel)"
  then have "getIndex (coordinateSet aModel) (coordinate a) = None"
    by (simp add: getIndex_None_iff)
  then show "CoordinateActuator_setup aModel a =
        Inl (Exception (''CoordinateActuator: Invalid coordinate ('' @ coordinate a
                        @ '') specified in Actuator '' @ name a))"
    by (simp add: CoordinateActuator_setup_def contains_def Actuator_setup_def)
next
  assume "coordinate a \<in> coord_name ` set (coordinateSet aModel)"
  then obtain i where i: "getIndex (coordinateSet aModel) (coordinate a) = Some i"
    using getIndex_None_iff [of "coordinateSet aModel" "coordinate a"] by auto
  from getIndex_Some [OF i] i
  show "\<exists>i. i < length (coordinateSet aModel) \<and>
           coord_name (coordinateSet aModel ! i) = coordinate a \<and>
           CoordinateActuator_setup aModel a =
             Inr (a\<lparr>m_model := Some aModel, m_coord := Some i\<rparr>)"
    by (intro exI [of _ i])
      (simp add: CoordinateActuator_setup_def contains_def Actuator_setup_def)
qed

text \<open>A model with the coordinates knee and ankle: hip is not found, ankle is at position 1.\<close>

theorem setup_resolves_witness:
  "''hip'' \<notin> coord_name ` set [\<lparr>coord_name = ''knee''\<rparr>, \<lparr>coord_name = ''ankle''\<rparr>] \<and>
   CoordinateActuator_setup \<lparr>coordinateSet = [\<lparr>coord_name = ''knee''\<rparr>, \<lparr>coord_name = ''ankle''\<rparr>]\<rparr>
       (newCoordinateActuator ''hip'')
     = Inl (Exception ''CoordinateActuator: Invalid coordinate (hip) specified in Actuator '') \<and>
   ''ankle'' \<in> coord_name ` set [\<lparr>coord_name = ''knee''\<rparr>, \<lparr>coord_name = ''ankle''\<rparr>] \<and>
   CoordinateActuator_setup \<lparr>coordinateSet = [\<lparr>coord_name = ''knee''\<rparr>, \<lparr>coord_name = ''ankle''\<rparr>]\<rparr>
       (newCoordinateActuator ''ankle'')
     = Inr ((newCoordinateActuator ''ankle'')
           \<lparr>m_model := Some \<lparr>coordinateSet = [\<lparr>coord_name = ''knee''\<rparr>, \<lparr>coord_name = ''ankle''\<rparr>]\<rparr>,
            m_coord := Some 1\<rparr>)"
  using setup_resolves [of "newCoordinateActuator ''hip''"
      "\<lparr>coordinateSet = [\<lparr>coord_name = ''knee''\<rparr>, \<lparr>coord_name = ''ankle''\<rparr>]\<rparr>"]
    setup_resolves [of "newCoordinateActuator ''ankle''"
      "\<lparr>coordinateSet = [\<lparr>coord_name = ''knee''\<rparr>, \<lparr>coord_name = ''ankle''\<rparr>]\<rparr>"]
  by (auto simp: newCoordinateActuator_def less_Suc_eq)

text \<open>
  C10. For an actuator whose model pointer is \<open>NULL\<close>, \<open>computeForce\<close> returns at once:
  the state (and with it the cached force), the body forces and the mobility forces are
  returned as they were and nothing is written. For an actuator that has a model but no
  coordinate, the force is cached in the state before the application is skipped.
\<close>

theorem computeForce_null_model:
  "(m_model a = None \<longrightarrow> computeForce app a s bf mf = Inr (s, bf, mf, [])) \<and>
   (m_model a \<noteq> None \<and> m_coord a = None \<longrightarrow>
      computeForce app a s bf mf =
        Inr (setForce s (if isForceOverriden s then computeOverrideForce s
                         else computeActuation a s),
             bf, mf, [''CoordinateActuator::computeForce  Invalid coordinate '']))"
  by (simp add: computeForce_def isCoordinateValid_def Let_def)

text \<open>
  The same state, with cached force 7 and control 0.5, given to an actuator without a
  model and to one with a model and no coordinate: the cached force stays 7 in the first
  case and becomes 0.5 in the second.
\<close>

theorem computeForce_null_model_witness:
  "m_model (newCoordinateActuator ''knee'') = None \<and>
   computeForce (\<lambda>s c f mf. mf[c := mf ! c + f]) (newCoordinateActuator ''knee'')
       \<lparr>control = 1/2, force = 7, force_overridden = False, override_force = 0\<rparr>
       ([] :: real list) [1, 2 :: real]
     = Inr (\<lparr>control = 1/2, force = 7, force_overridden = False, override_force = 0\<rparr>,
            [], [1, 2], []) \<and>
   m_model ((newCoordinateActuator ''knee'')\<lparr>m_model := Some \<lparr>coordinateSet = []\<rparr>\<rparr>) \<noteq> None \<and>
   m_coord ((newCoordinateActuator ''knee'')\<lparr>m_model := Some \<lparr>coordinateSet = []\<rparr>\<rparr>) = None \<and>
   computeForce (\<lambda>s c f mf. mf[c := mf ! c + f])
       ((newCoordinateActuator ''knee'')\<lparr>m_model := Some \<lparr>coordinateSet = []\<rparr>\<rparr>)
       \<lparr>control = 1/2, force = 7, force_overridden = False, override_force = 0\<rparr>
       ([] :: real list) [1, 2 :: real]
     = Inr (\<lparr>control = 1/2, force = 1/2, force_overridden = False, override_force = 0\<rparr>,
            [], [1, 2], [''CoordinateActuator::computeForce  Invalid coordinate ''])"
  using computeForce_null_model
    [of "newCoordinateActuator ''knee''" "\<lambda>s c f mf. mf[c := mf ! c + f]"
        "\<lparr>control = 1/2, force = 7, force_overridden = False, override_force = 0\<rparr>"
        "[] :: real list" "[1, 2 :: real]"]
    computeForce_null_model
    [of "(newCoordinateActuator ''knee'')\<lparr>m_model := Some \<lparr>coordinateSet = []\<rparr>\<rparr>"
        "\<lambda>s c f mf. mf[c := mf ! c + f]"
        "\<lparr>control = 1/2, force = 7, force_overridden = False, override_force = 0\<rparr>"
        "[] :: real list" "[1, 2 :: real]"]
  by (simp add: newCoordinateActuator_def isForceOverriden_def computeOverrideForce_def
      computeActuation_def getControl_def setForce_def)

section \<open>Properties of the controllers\<close>

lemma sum_list_map2_nth:
  "length xs = length ys \<Longrightarrow>
     sum_list (map2 f xs ys) = (\<Sum>k<length ys. f (xs ! k) (ys ! k))"
proof (induction xs ys rule: list_induct2)
  case Nil
  then show ?case by simp
next
  case (Cons x xs y ys)
  have "(\<Sum>k<Suc (length ys). f ((x # xs) ! k) ((y # ys) ! k))
          = f x y + (\<Sum>k<length ys. f (xs ! k) (ys ! k))"
    by (simp add: sum.lessThan_Suc_shift del: sum.lessThan_Suc)
  with Cons.IH show ?case by simp
qed

text \<open>
  C6. For a synergy controller with \<open>K\<close> synergy vectors, each with one weight per
  controlled actuator, and \<open>K\<close> excitation values of any size and sign,
  \<open>computeControls\<close> returns one value per controlled actuator, and the value for actuator
  \<open>j\<close> is the sum over the channels \<open>k\<close> of the excitation of \<open>k\<close> times the weight of
  \<open>j\<close> in the synergy vector of \<open>k\<close>. Nothing is clamped.
\<close>

theorem SynergyController_computeControls_spec:
  assumes "length excitations = length (synergyVectors c)"
    and "\<forall>v \<in> set (synergyVectors c). length v = length (controlled c)"
  shows "length (SynergyController_computeControls c excitations) = length (controlled c) \<and>
         (\<forall>j < length (controlled c).
            SynergyController_computeControls c excitations ! j
              = (\<Sum>k < length (synergyVectors c). excitations ! k * synergyVectors c ! k ! j))"
  using assms(1)
  by (simp add: SynergyController_computeControls_def sum_list_map2_nth)

text \<open>
  The scenario of the spec: two actuators, one channel with the vector \<open>[0.3, 0.7]\<close>
  and the excitation 2.0 give the controls \<open>[0.6, 1.4]\<close>.
\<close>

theorem SynergyController_computeControls_spec_witness:
  "length [2 :: real]
     = length (synergyVectors \<lparr>controlled = [''a'', ''b''], synergyVectors = [[3/10, 7/10]]\<rparr>) \<and>
   set (map length (synergyVectors \<lparr>controlled = [''a'', ''b''], synergyVectors = [[3/10, 7/10 :: real]]\<rparr>))
     = {length (controlled \<lparr>controlled = [''a'', ''b''], synergyVectors = [[3/10, 7/10 :: real]]\<rparr>)} \<and>
   SynergyController_computeControls
       \<lparr>controlled = [''a'', ''b''], synergyVectors = [[3/10, 7/10]]\<rparr> [2] = [6/10, 14/10]"
proof -
  let ?c = "\<lparr>controlled = [''a'', ''b''], synergyVectors = [[3/10, 7/10 :: real]]\<rparr>"
  have h1: "length [2 :: real] = length (synergyVectors ?c)" by simp
  have h2: "\<forall>v \<in> set (synergyVectors ?c). length v = length (controlled ?c)" by simp
  from SynergyController_computeControls_spec [OF h1 h2]
  have len: "length (SynergyController_computeControls ?c [2]) = 2"
    and e0: "SynergyController_computeControls ?c [2] ! 0 = 6/10"
    and e1: "SynergyController_computeControls ?c [2] ! 1 = 14/10"
    by simp_all
  from len obtain x y where xy: "SynergyController_computeControls ?c [2] = [x, y]"
    by (auto simp: length_Suc_conv numeral_2_eq_2)
  with e0 e1 have "SynergyController_computeControls ?c [2] = [6/10, 14/10]"
    by simp
  with h1 h2 show ?thesis by simp
qed

text \<open>
  C9. \<open>computeControls\<close> of a prescribed controller returns one value per controlled
  actuator, in attachment order: for an actuator with an assigned function the value of
  the function at the current time, and for an actuator without one the value 0, while the
  values of the other actuators are computed all the same.
\<close>

theorem PrescribedController_computeControls_spec:
  "length (PrescribedController_computeControls c t) = length (actuators c) \<and>
   (\<forall>j < length (actuators c).
      (\<forall>f. ControlFunctions c j = Some f \<longrightarrow> PrescribedController_computeControls c t ! j = f t) \<and>
      (ControlFunctions c j = None \<longrightarrow> PrescribedController_computeControls c t ! j = 0))"
  by (simp add: PrescribedController_computeControls_def)

text \<open>
  Three actuators, functions assigned to the first and the third, evaluated at time 2.
\<close>

theorem PrescribedController_computeControls_spec_witness:
  "PrescribedController_computeControls
     (prescribeControlForActuator 2 (\<lambda>t. 3 * t)
        (prescribeControlForActuator 0 (\<lambda>t. t + 1)
           \<lparr>actuators = [''a'', ''b'', ''c''], ControlFunctions = Map.empty\<rparr>)) 2
    = [3, 0, 6]"
proof -
  let ?c = "prescribeControlForActuator 2 (\<lambda>t. 3 * t)
        (prescribeControlForActuator 0 (\<lambda>t. t + 1)
           \<lparr>actuators = [''a'', ''b'', ''c''], ControlFunctions = Map.empty\<rparr>)"
  from PrescribedController_computeControls_spec [of ?c 2]
  have "length (PrescribedController_computeControls ?c 2) = 3"
    and "PrescribedController_computeControls ?c 2 ! 0 = 3"
    and "PrescribedController_computeControls ?c 2 ! 1 = 0"
    and "PrescribedController_computeControls ?c 2 ! 2 = 6"
    by (simp_all add: prescribeControlForActuator_def)
  moreover from this obtain x y z where "PrescribedController_computeControls ?c 2 = [x, y, z]"
    by (auto simp: length_Suc_conv numeral_3_eq_3)
  ultimately show ?thesis
    by simp
qed

section \<open>Properties of the non-negative factorizer\<close>

lemma mat_mult_nonneg:
  assumes "\<And>k. k < n \<Longrightarrow> 0 \<le> A i k" and "\<And>k. k < n \<Longrightarrow> 0 \<le> B k j"
  shows "0 \<le> mat_mult n A B i j"
  unfolding mat_mult_def using assms by (intro sum_nonneg mult_nonneg_nonneg) auto

lemma updateH_nonneg:
  assumes d: "0 < \<delta>"
    and V: "\<forall>i<T. \<forall>j<M. 0 \<le> V i j"
    and W: "\<forall>i<T. \<forall>a<K. 0 \<le> W i a"
    and H: "\<forall>a<K. \<forall>j<M. 0 \<le> H a j"
  shows "\<forall>a<K. \<forall>j<M. 0 \<le> updateH \<delta> T K V W H a j"
proof (intro allI impI)
  fix a j assume a: "a < K" and j: "j < M"
  have num: "0 \<le> mat_mult T (mat_transpose W) V a j"
    using V W a j by (intro mat_mult_nonneg) (auto simp: mat_transpose_def)
  have "0 \<le> mat_mult K (mat_mult T (mat_transpose W) W) H a j"
  proof (rule mat_mult_nonneg)
    fix b assume b: "b < K"
    show "0 \<le> mat_mult T (mat_transpose W) W a b"
      using W a b by (intro mat_mult_nonneg) (auto simp: mat_transpose_def)
    show "0 \<le> H b j" using H b j by simp
  qed
  with d have den: "0 < mat_mult K (mat_mult T (mat_transpose W) W) H a j + \<delta>"
    by simp
  from H a j have "0 \<le> H a j" by simp
  with num den show "0 \<le> updateH \<delta> T K V W H a j"
    unfolding updateH_def by (intro mult_nonneg_nonneg divide_nonneg_pos)
qed

lemma updateW_nonneg:
  assumes d: "0 < \<delta>"
    and V: "\<forall>i<T. \<forall>j<M. 0 \<le> V i j"
    and W: "\<forall>i<T. \<forall>a<K. 0 \<le> W i a"
    and H: "\<forall>a<K. \<forall>j<M. 0 \<le> H a j"
  shows "\<forall>i<T. \<forall>a<K. 0 \<le> updateW \<delta> M K V W H i a"
proof (intro allI impI)
  fix i a assume i: "i < T" and a: "a < K"
  have num: "0 \<le> mat_mult M V (mat_transpose H) i a"
    using V H i a by (intro mat_mult_nonneg) (auto simp: mat_transpose_def)
  have "0 \<le> mat_mult K W (mat_mult M H (mat_transpose H)) i a"
  proof (rule mat_mult_nonneg)
    fix b assume b: "b < K"
    show "0 \<le> W i b" using W i b by simp
    show "0 \<le> mat_mult M H (mat_transpose H) b a"
      using H a b by (intro mat_mult_nonneg) (auto simp: mat_transpose_def)
  qed
  with d have den: "0 < mat_mult K W (mat_mult M H (mat_transpose H)) i a + \<delta>"
    by simp
  from W i a have "0 \<le> W i a" by simp
  with num den show "0 \<le> updateW \<delta> M K V W H i a"
    unfolding updateW_def by (intro mult_nonneg_nonneg divide_nonneg_pos)
qed

lemma nmf_step_nonneg:
  assumes d: "0 < \<delta>"
    and V: "\<forall>i<T. \<forall>j<M. 0 \<le> V i j"
    and W: "\<forall>i<T. \<forall>a<K. 0 \<le> fst WH i a"
    and H: "\<forall>a<K. \<forall>j<M. 0 \<le> snd WH a j"
  shows "(\<forall>i<T. \<forall>a<K. 0 \<le> fst (nmf_step \<delta> T M K V WH) i a) \<and>
         (\<forall>a<K. \<forall>j<M. 0 \<le> snd (nmf_step \<delta> T M K V WH) a j)"
proof -
  have H': "\<forall>a<K. \<forall>j<M. 0 \<le> updateH \<delta> T K V (fst WH) (snd WH) a j"
    by (rule updateH_nonneg [OF d V W H])
  have W': "\<forall>i<T. \<forall>a<K. 0 \<le> updateW \<delta> M K V (fst WH) (updateH \<delta> T K V (fst WH) (snd WH)) i a"
    by (rule updateW_nonneg [OF d V W H'])
  from H' W' show ?thesis by (simp add: nmf_step_def Let_def)
qed

lemma nmf_iterate_nonneg:
  assumes d: "0 < \<delta>"
    and V: "\<forall>i<T. \<forall>j<M. 0 \<le> V i j"
  shows "(\<forall>i<T. \<forall>a<K. 0 \<le> fst WH i a) \<Longrightarrow> (\<forall>a<K. \<forall>j<M. 0 \<le> snd WH a j) \<Longrightarrow>
         (\<forall>i<T. \<forall>a<K. 0 \<le> fst (nmf_iterate \<delta> T M K V \<epsilon> n WH) i a) \<and>
         (\<forall>a<K. \<forall>j<M. 0 \<le> snd (nmf_iterate \<delta> T M K V \<epsilon> n WH) a j)"
proof (induction n arbitrary: WH)
  case 0
  then show ?case by simp
next
  case (Suc n)
  note step = nmf_step_nonneg [OF d V Suc.prems]
  show ?case
  proof (cases "(reconstructionError T M K V (fst WH) (snd WH)
                  - reconstructionError T M K V (fst (nmf_step \<delta> T M K V WH))
                      (snd (nmf_step \<delta> T M K V WH)))
                / reconstructionError T M K V (fst WH) (snd WH) < \<epsilon>")
    case True
    with step show ?thesis by (simp add: Let_def)
  next
    case False
    from Suc.IH [of "nmf_step \<delta> T M K V WH"] step
    have "(\<forall>i<T. \<forall>a<K. 0 \<le> fst (nmf_iterate \<delta> T M K V \<epsilon> n (nmf_step \<delta> T M K V WH)) i a) \<and>
          (\<forall>a<K. \<forall>j<M. 0 \<le> snd (nmf_iterate \<delta> T M K V \<epsilon> n (nmf_step \<delta> T M K V WH)) a j)"
      by blast
    with False show ?thesis by (simp add: Let_def)
  qed
qed

text \<open>
  C7. For an entrywise non-negative input \<open>V\<close>, any target rank, iteration cap and
  tolerance, a positive floor and non-negative seeds, every entry of the two factors that
  the factorizer returns is non-negative.
\<close>

theorem factorizeMatrixNonNegative_nonneg:
  assumes "0 < \<delta>"
    and "\<forall>i<T. \<forall>j<M. 0 \<le> V i j"
    and "\<forall>i<T. \<forall>a<K. 0 \<le> W0 i a"
    and "\<forall>a<K. \<forall>j<M. 0 \<le> H0 a j"
  shows "(\<forall>i<T. \<forall>a<K. 0 \<le> fst (factorizeMatrixNonNegative \<delta> W0 H0 T M V K N \<epsilon>) i a) \<and>
         (\<forall>a<K. \<forall>j<M. 0 \<le> snd (factorizeMatrixNonNegative \<delta> W0 H0 T M V K N \<epsilon>) a j)"
  unfolding factorizeMatrixNonNegative_def
  using nmf_iterate_nonneg [OF assms(1,2), of K "(W0, H0)" \<epsilon> N] assms(3,4)
  by simp

text \<open>
  A \<open>1 \<times> 1\<close> input with the entry 1/4, seeds 1/2, floor 1/1000, cap 1000 and tolerance
  \<open>10\<^sup>-\<^sup>6\<close>, the cap and tolerance of the call in the example.
\<close>

theorem factorizeMatrixNonNegative_nonneg_witness:
  "0 \<le> fst (factorizeMatrixNonNegative (1/1000) (\<lambda>i a. 1/2) (\<lambda>a j. 1/2) 1 1 (\<lambda>i j. 1/4) 1 1000 (1/1000000)) 0 0 \<and>
   0 \<le> snd (factorizeMatrixNonNegative (1/1000) (\<lambda>i a. 1/2) (\<lambda>a j. 1/2) 1 1 (\<lambda>i j. 1/4) 1 1000 (1/1000000)) 0 0"
  using factorizeMatrixNonNegative_nonneg
    [of "1/1000" 1 1 "\<lambda>i j. 1/4" 1 "\<lambda>i a. 1/2" "\<lambda>a j. 1/2" 1000 "1/1000000"]
  by simp

end
